theory Spec2Isabelle
  imports Main "HOL-Library.Char_ord" "HOL-Library.List_Lexorder" "HOL-Library.Multiset"
begin

section \<open>Text primitives of the Python runtime\<close>

text \<open>
  A Python \<open>str\<close> is a sequence of code points. The model is a \<open>string\<close> whose
  characters stand for the code points 0 to 255; the classes below are the ones the
  interpreter uses on that range (\<open>str.isspace\<close>, the \<open>\s\<close>, \<open>\d\<close> and \<open>\w\<close> of the
  \<open>re\<close> module on a \<open>str\<close> pattern, \<open>str.isdigit\<close>, \<open>str.lower\<close> on ASCII letters).
\<close>

definition code :: "char \<Rightarrow> nat" where
  "code c = of_char c"

definition py_isspace :: "char \<Rightarrow> bool" where
  "py_isspace c = ((9 \<le> code c \<and> code c \<le> 13) \<or> (28 \<le> code c \<and> code c \<le> 32)
     \<or> code c = 133 \<or> code c = 160)"

definition re_digit :: "char \<Rightarrow> bool" where
  "re_digit c = (48 \<le> code c \<and> code c \<le> 57)"

definition ascii_upper :: "char \<Rightarrow> bool" where
  "ascii_upper c = (65 \<le> code c \<and> code c \<le> 90)"

definition ascii_lower :: "char \<Rightarrow> bool" where
  "ascii_lower c = (97 \<le> code c \<and> code c \<le> 122)"

definition ascii_alnum :: "char \<Rightarrow> bool" where
  "ascii_alnum c = (ascii_upper c \<or> ascii_lower c \<or> re_digit c)"

definition py_isdigit :: "char \<Rightarrow> bool" where
  \<comment> \<open>\<open>str.isdigit\<close>: the decimal digits and the superscripts 1, 2, 3\<close>
  "py_isdigit c = (re_digit c \<or> code c = 178 \<or> code c = 179 \<or> code c = 185)"

definition re_word :: "char \<Rightarrow> bool" where
  \<comment> \<open>\<open>\w\<close>: \<open>str.isalnum\<close> or the underscore\<close>
  "re_word c = (ascii_alnum c \<or> code c = 95 \<or> code c = 170 \<or> code c = 178 \<or> code c = 179
     \<or> code c = 181 \<or> code c = 185 \<or> code c = 186 \<or> (188 \<le> code c \<and> code c \<le> 190)
     \<or> (192 \<le> code c \<and> code c \<le> 214) \<or> (216 \<le> code c \<and> code c \<le> 246)
     \<or> 248 \<le> code c)"

definition lower_char :: "char \<Rightarrow> char" where
  "lower_char c = (if ascii_upper c then char_of (code c + 32) else c)"

definition lower_str :: "string \<Rightarrow> string" where
  "lower_str s = map lower_char s"

definition strip :: "string \<Rightarrow> string" where
  \<comment> \<open>\<open>str.strip()\<close> with no argument\<close>
  "strip s = rev (dropWhile py_isspace (rev (dropWhile py_isspace s)))"

definition isdigit_str :: "string \<Rightarrow> bool" where
  \<comment> \<open>\<open>str.isdigit()\<close>: false on the empty string\<close>
  "isdigit_str s = (s \<noteq> [] \<and> list_all py_isdigit s)"

definition digit_val :: "char \<Rightarrow> nat" where
  "digit_val c = code c - 48"

definition int_of_str :: "string \<Rightarrow> nat" where
  \<comment> \<open>\<open>int(s)\<close> on a string of decimal digits; Python integers are unbounded\<close>
  "int_of_str s = foldl (\<lambda>a c. 10 * a + digit_val c) 0 s"

definition at_end :: "string \<Rightarrow> bool" where
  \<comment> \<open>the anchor \<open>$\<close> without MULTILINE: the end of the string, or the position just
      before a newline that is the last character\<close>
  "at_end r = (r = [] \<or> r = [CHR 0x0A])"

section \<open>Configuration constants\<close>

definition MIN_MINUTES :: nat where
  "MIN_MINUTES = 75"

definition ROW_TITLES :: "string list" where
  "ROW_TITLES = [''Recently Uploaded'', ''Popular'', ''Political'', ''War'', ''History'']"

definition ROW_QUERIES :: "string \<rightharpoonup> string list" where
  "ROW_QUERIES = map_of
    [(''Recently Uploaded'', [''political thriller full movie'', ''war full movie'',
        ''historical drama full movie'', ''history war full movie'']),
     (''Popular'', [''political thriller full movie'', ''war full movie'',
        ''historical drama full movie'', ''history war full movie'']),
     (''Political'', [''political thriller full movie'', ''political drama full movie'',
        ''conspiracy thriller full movie'', ''spy political thriller full movie'']),
     (''War'', [''war full movie'', ''ww2 full movie'', ''vietnam war full movie'',
        ''military thriller full movie'']),
     (''History'', [''historical drama full movie'', ''based on true events full movie'',
        ''period drama full movie'', ''history war drama full movie''])]"

definition WIKIDATA_AWARD_QIDS :: "string \<rightharpoonup> string" where
  "WIKIDATA_AWARD_QIDS = map_of
    [(''Q103360'', ''Oscar Best Picture''),
     (''Q106291'', ''Oscar Best Director''),
     (''Q1033603'', ''Oscar Best Original Screenplay''),
     (''Q1033604'', ''Oscar Best Adapted Screenplay''),
     (''Q106301'', ''Golden Globe Best Motion Picture (Drama)''),
     (''Q106295'', ''Golden Globe Best Motion Picture (Musical/Comedy)''),
     (''Q106296'', ''Golden Globe Best Director''),
     (''Q106297'', ''Golden Globe Best Screenplay'')]"

section \<open>The three compiled patterns\<close>

text \<open>
  \<open>YT_ID_RE = ^[A-Za-z0-9_-]{11}$\<close>, used with \<open>match\<close>: eleven characters of the class,
  then the anchor \<open>$\<close>.
\<close>

definition id_char :: "char \<Rightarrow> bool" where
  "id_char c = (ascii_alnum c \<or> c = CHR ''_'' \<or> c = CHR ''-'')"

definition YT_ID_RE_match :: "string \<Rightarrow> bool" where
  "YT_ID_RE_match vid =
     (11 \<le> length vid \<and> list_all id_char (take 11 vid) \<and> at_end (drop 11 vid))"

text \<open>
  \<open>EXCLUDE_TITLE_RE = \bdocumentary\b\<close> with IGNORECASE, used with \<open>search\<close>: at some
  position the eleven letters occur in either case, with a word boundary on each side.
  The pattern begins and ends with a word character, so a boundary there means that the
  neighbour on that side is missing or is not a word character.
\<close>

fun ci_prefix :: "string \<Rightarrow> string \<Rightarrow> bool" where
  "ci_prefix [] s = True"
| "ci_prefix (p # ps) [] = False"
| "ci_prefix (p # ps) (c # cs) = (lower_char c = p \<and> ci_prefix ps cs)"

definition boundary_after :: "nat \<Rightarrow> string \<Rightarrow> bool" where
  \<comment> \<open>\<open>\b\<close> after a word character that ends \<open>n\<close> characters into \<open>s\<close>\<close>
  "boundary_after n s = (case drop n s of [] \<Rightarrow> True | c # _ \<Rightarrow> \<not> re_word c)"

fun word_search :: "string \<Rightarrow> bool \<Rightarrow> string \<Rightarrow> bool" where
  \<comment> \<open>\<open>prev\<close>: the character before the current position is a word character\<close>
  "word_search w prev [] = False"
| "word_search w prev (c # cs) =
     ((\<not> prev \<and> ci_prefix w (c # cs) \<and> boundary_after (length w) (c # cs))
      \<or> word_search w (re_word c) cs)"

definition EXCLUDE_TITLE_RE_search :: "string \<Rightarrow> bool" where
  "EXCLUDE_TITLE_RE_search title = word_search ''documentary'' False title"

text \<open>
  The duration pattern \<open>^PT(?:(\d+)H)?(?:(\d+)M)?(?:(\d+)S)?$\<close>, used with \<open>match\<close>.
  A group is a run of digits followed by its unit letter. The letter is not a digit, so
  the run is the longest one, and where the group can match no later part of the pattern
  can match in its place: the optional groups are decided from left to right.
\<close>

definition opt_group :: "char \<Rightarrow> string \<Rightarrow> string option \<times> string" where
  "opt_group u s =
     (let ds = takeWhile re_digit s; r = dropWhile re_digit s
      in case r of
           [] \<Rightarrow> (None, s)
         | c # r' \<Rightarrow> if ds \<noteq> [] \<and> c = u then (Some ds, r') else (None, s))"

definition duration_match :: "string \<Rightarrow> (string option \<times> string option \<times> string option) option" where
  "duration_match d =
     (case d of
        p # t # r0 \<Rightarrow>
          if p = CHR ''P'' \<and> t = CHR ''T'' then
            (let (g1, r1) = opt_group CHR ''H'' r0;
                 (g2, r2) = opt_group CHR ''M'' r1;
                 (g3, r3) = opt_group CHR ''S'' r2
             in if at_end r3 then Some (g1, g2, g3) else None)
          else None
      | _ \<Rightarrow> None)"

definition group_int :: "string option \<Rightarrow> nat" where
  \<comment> \<open>\<open>if mobj.group(i): x = int(mobj.group(i))\<close>, with \<open>x = 0\<close> before\<close>
  "group_int g = (case g of None \<Rightarrow> 0 | Some ds \<Rightarrow> int_of_str ds)"

definition iso8601_duration_to_minutes :: "string \<Rightarrow> nat" where
  "iso8601_duration_to_minutes d =
     (case duration_match d of
        None \<Rightarrow> 0
      | Some (g1, g2, g3) \<Rightarrow>
          (let h = group_int g1; m = group_int g2; s = group_int g3
           in h * 60 + m + (if s \<ge> 30 then 1 else 0)))"

section \<open>Data: the JSON documents of the services and the output\<close>

text \<open>
  Each JSON object the code reads is a record of the fields it reads, typed as the
  services document them; a field that may be absent or \<open>null\<close> is an option, and the
  code's \<open>x.get(k) or default\<close> is the case distinction on it.
\<close>

record thumbnail =
  url :: "string option"

record snippet =
  sn_title :: "string option"
  sn_thumbnails :: "(string \<rightharpoonup> thumbnail option) option"
    \<comment> \<open>per variant name, if the key is present: the object, or \<open>None\<close> for \<open>null\<close>\<close>

record contentDetails =
  duration :: "string option"

record video =
  v_id :: string  \<comment> \<open>\<open>v.get("id", "")\<close>\<close>
  v_snippet :: "snippet option"
  v_contentDetails :: "contentDetails option"

record search_page =
  sp_items :: "string option list"  \<comment> \<open>per result, \<open>id.videoId\<close> if present\<close>
  nextPageToken :: "string option"

record tmdb_hit =
  hit_id :: "int option"

record crew_member =
  job :: "string option"
  crew_name :: "string option"

record cast_member =
  cast_name :: "string option"

record credits =
  crew :: "crew_member list"  \<comment> \<open>\<open>credits.get("crew") or []\<close>\<close>
  cast :: "cast_member list"

record external_ids =
  imdb_id :: "string option"

record details =
  release_date :: "string option"
  d_credits :: "credits option"
  poster_path :: "string option"
  d_external_ids :: "external_ids option"
  d_title :: "string option"

record sparql_response =
  status_code :: nat
  bindings :: "string list"  \<comment> \<open>per binding, \<open>award.value\<close>, or the empty string\<close>

record item =
  title :: string
  year :: string
  director :: string
  leads :: "string list"
  posterUrl :: string
  youtubeId :: string
  awards :: "string list"

record payload =
  date :: string
  criteria :: string
  row_titles :: "string list"
  p_items :: "item list"

section \<open>Errors, the services and the state of a run\<close>

datatype error =
    RequestException  \<comment> \<open>raised by \<open>requests.get\<close>, \<open>raise_for_status\<close> or \<open>r.json()\<close>\<close>
  | KeyError
  | AttributeError  \<comment> \<open>a method call on \<open>None\<close>\<close>
  | SystemExit string

datatype call =
    YtSearch string string "string option" nat
  | YtVideos "string list"
  | TmdbSearch string
  | TmdbDetails int
  | Wikidata string

text \<open>
  The services are outside the program. Each is a function of the request and of the
  number of requests the run has made before it, so that a service may answer the same
  request differently each time. \<open>randbelow\<close> is the random source of
  \<open>random.shuffle\<close>, \<open>utc_today\<close> the date the clock gives when the payload is built.
\<close>

record env =
  yt_search_api :: "nat \<Rightarrow> string \<Rightarrow> string \<Rightarrow> string option \<Rightarrow> nat \<Rightarrow> error + search_page"
  yt_videos_api :: "nat \<Rightarrow> string list \<Rightarrow> error + video list"
  tmdb_search_api :: "nat \<Rightarrow> string \<Rightarrow> error + tmdb_hit list"
  tmdb_details_api :: "nat \<Rightarrow> int \<Rightarrow> error + details"
  wikidata_api :: "nat \<Rightarrow> string \<Rightarrow> error + sparql_response"
  randbelow :: "nat \<Rightarrow> nat \<Rightarrow> nat"
  utc_today :: string

text \<open>
  The state of a run: the set \<open>seen_ids\<close> that \<open>main\<close> creates and hands to every
  \<open>fill_row\<close>, the requests sent so far, in order, and the file \<open>data/today.json\<close>
  as far as this run has written it.
\<close>

record state =
  seen_ids :: "string set"
  calls :: "call list"
  artifact :: "payload option"

type_synonym 'a result = "(error + 'a) \<times> state"

definition tick :: "state \<Rightarrow> nat" where
  "tick st = length (calls st)"

definition log_call :: "call \<Rightarrow> state \<Rightarrow> state" where
  "log_call c st = st\<lparr>calls := calls st @ [c]\<rparr>"

definition truthy :: "string option \<Rightarrow> bool" where
  \<comment> \<open>the truth value of a value that is \<open>None\<close> or a string\<close>
  "truthy x = (case x of None \<Rightarrow> False | Some s \<Rightarrow> s \<noteq> [])"

definition or_empty :: "string option \<Rightarrow> string" where
  \<comment> \<open>\<open>x or ""\<close>\<close>
  "or_empty x = (case x of None \<Rightarrow> [] | Some s \<Rightarrow> s)"

section \<open>The functions of the script\<close>

definition yt_search :: "env \<Rightarrow> string \<Rightarrow> string \<Rightarrow> string option \<Rightarrow> nat \<Rightarrow> state \<Rightarrow> search_page result" where
  "yt_search e q ord page_token max_results st =
     (let tok = (if truthy page_token then page_token else None)
      in (yt_search_api e (tick st) q ord tok max_results,
          log_call (YtSearch q ord tok max_results) st))"

definition yt_videos :: "env \<Rightarrow> string list \<Rightarrow> state \<Rightarrow> video list result" where
  "yt_videos e video_ids st =
     (yt_videos_api e (tick st) video_ids, log_call (YtVideos video_ids) st)"

definition thumbnail_keys :: "string list" where
  "thumbnail_keys = [''maxres'', ''standard'', ''high'', ''medium'', ''default'']"

text \<open>
  The loop of \<open>pick_best_thumbnail\<close>. \<open>k in thumbs and thumbs[k].get("url")\<close>: a key that
  is present with the value \<open>null\<close> makes \<open>thumbs[k].get\<close> raise AttributeError.
\<close>

fun first_thumbnail :: "(string \<rightharpoonup> thumbnail option) \<Rightarrow> string list \<Rightarrow> error + string" where
  "first_thumbnail thumbs [] = Inr []"
| "first_thumbnail thumbs (k # ks) =
     (case thumbs k of
        None \<Rightarrow> first_thumbnail thumbs ks
      | Some None \<Rightarrow> Inl AttributeError
      | Some (Some t) \<Rightarrow>
          if truthy (url t) then Inr (or_empty (url t)) else first_thumbnail thumbs ks)"

definition pick_best_thumbnail :: "snippet \<Rightarrow> error + string" where
  "pick_best_thumbnail sn =
     (let thumbs = (case sn_thumbnails sn of None \<Rightarrow> Map.empty | Some t \<Rightarrow> t)
      in first_thumbnail thumbs thumbnail_keys)"

text \<open>
  \<open>clean_title_for_tmdb\<close>: three substitutions, each scanning its input from the left
  and replacing the leftmost match, then continuing after it; then \<open>strip\<close> and the
  first 120 characters. The counter of each scan is the number of characters of the
  current match that are still to be skipped.
\<close>

definition junk_words :: "string list" where
  "junk_words = [''full movie'', ''full-film'', ''full film'', ''hd'', ''4k'', ''1080p'',
     ''720p'', ''english'']"

definition junk_at :: "bool \<Rightarrow> string \<Rightarrow> nat option" where
  \<comment> \<open>the length of the match of \<open>\b(full movie|...)\b\<close> at this position, if any\<close>
  "junk_at prev s =
     (if prev then None
      else map_option length
             (find (\<lambda>w. ci_prefix w s \<and> boundary_after (length w) s) junk_words))"

fun sub_junk :: "nat \<Rightarrow> bool \<Rightarrow> string \<Rightarrow> string" where
  "sub_junk k prev [] = []"
| "sub_junk (Suc k) prev (c # cs) = sub_junk k True cs"
| "sub_junk 0 prev (c # cs) =
     (case junk_at prev (c # cs) of
        Some n \<Rightarrow> sub_junk (n - 1) True cs
      | None \<Rightarrow> c # sub_junk 0 (re_word c) cs)"

definition is_delim :: "char \<Rightarrow> bool" where
  "is_delim c = (c \<in> set ''[]()|'')"

definition bracket_at :: "string \<Rightarrow> nat option" where
  \<comment> \<open>after a delimiter: the length of the shortest run without newline that ends in a
      delimiter, if there is one (\<open>.*?\<close> then a delimiter)\<close>
  "bracket_at cs =
     (let mid = takeWhile (\<lambda>x. \<not> is_delim x \<and> x \<noteq> CHR 0x0A) cs
      in case drop (length mid) cs of
           [] \<Rightarrow> None
         | d # _ \<Rightarrow> if is_delim d then Some (Suc (length mid)) else None)"

fun sub_bracket :: "nat \<Rightarrow> string \<Rightarrow> string" where
  "sub_bracket k [] = []"
| "sub_bracket (Suc k) (c # cs) = sub_bracket k cs"
| "sub_bracket 0 (c # cs) =
     (if is_delim c then
        (case bracket_at cs of
           Some n \<Rightarrow> CHR '' '' # sub_bracket n cs
         | None \<Rightarrow> c # sub_bracket 0 cs)
      else c # sub_bracket 0 cs)"

fun collapse_ws :: "bool \<Rightarrow> string \<Rightarrow> string" where
  \<comment> \<open>\<open>inws\<close>: the previous character was whitespace, already replaced\<close>
  "collapse_ws inws [] = []"
| "collapse_ws inws (c # cs) =
     (if py_isspace c then (if inws then collapse_ws True cs else CHR '' '' # collapse_ws True cs)
      else c # collapse_ws False cs)"

definition clean_title_for_tmdb :: "string \<Rightarrow> string" where
  "clean_title_for_tmdb t =
     take 120 (strip (collapse_ws False (sub_bracket 0 (sub_junk 0 False t))))"

definition tmdb_search_movie :: "env \<Rightarrow> string \<Rightarrow> state \<Rightarrow> tmdb_hit option result" where
  "tmdb_search_movie e query st =
     (case tmdb_search_api e (tick st) query of
        Inl err \<Rightarrow> (Inl err, log_call (TmdbSearch query) st)
      | Inr results \<Rightarrow>
          (Inr (case results of [] \<Rightarrow> None | h # _ \<Rightarrow> Some h), log_call (TmdbSearch query) st))"

definition tmdb_movie_details :: "env \<Rightarrow> int \<Rightarrow> state \<Rightarrow> details result" where
  "tmdb_movie_details e movie_id st =
     (tmdb_details_api e (tick st) movie_id, log_call (TmdbDetails movie_id) st)"

definition qid_of :: "string \<Rightarrow> string" where
  \<comment> \<open>\<open>uri.rsplit("/", 1)[-1]\<close>\<close>
  "qid_of uri = rev (takeWhile (\<lambda>c. c \<noteq> CHR ''/'') (rev uri))"

definition fromkeys :: "'a list \<Rightarrow> 'a list" where
  \<comment> \<open>\<open>list(dict.fromkeys(xs))\<close>: the first occurrence of each element, in order\<close>
  "fromkeys xs = foldl (\<lambda>acc x. if x \<in> set acc then acc else acc @ [x]) [] xs"

definition award_labels :: "string list \<Rightarrow> string list" where
  \<comment> \<open>the list \<open>out\<close> of the loop over the bindings\<close>
  "award_labels uris = List.map_filter (\<lambda>uri. WIKIDATA_AWARD_QIDS (qid_of uri)) uris"

definition wikidata_awards_for_film :: "env \<Rightarrow> string \<Rightarrow> state \<Rightarrow> string list result" where
  "wikidata_awards_for_film e imdb st =
     (if imdb = [] then (Inr [], st)
      else
        (case wikidata_api e (tick st) imdb of
           Inl err \<Rightarrow> (Inl err, log_call (Wikidata imdb) st)
         | Inr r \<Rightarrow>
             if status_code r \<noteq> 200 then (Inr [], log_call (Wikidata imdb) st)
             else (Inr (sort (fromkeys (award_labels (bindings r)))),
                   log_call (Wikidata imdb) st)))"

text \<open>
  \<open>build_item_from_video\<close>. The three early returns of \<open>None\<close> come first; the rest is
  the enrichment. An exception of a service, or of \<open>pick_best_thumbnail\<close>, which is
  called only when the details gave no poster, leaves the function as \<open>Inl\<close>.
\<close>

definition raw_title :: "video \<Rightarrow> string" where
  \<comment> \<open>\<open>(snippet.get("title") or "").strip()\<close> with \<open>snippet = v.get("snippet") or {}\<close>\<close>
  "raw_title v = strip (case v_snippet v of None \<Rightarrow> [] | Some sn \<Rightarrow> or_empty (sn_title sn))"

definition video_minutes :: "video \<Rightarrow> nat" where
  "video_minutes v =
     iso8601_duration_to_minutes
       (case v_contentDetails v of None \<Rightarrow> [] | Some cd \<Rightarrow> or_empty (duration cd))"

definition video_thumbnail :: "video \<Rightarrow> error + string" where
  \<comment> \<open>\<open>pick_best_thumbnail(snippet)\<close> with \<open>snippet = v.get("snippet") or {}\<close>\<close>
  "video_thumbnail v =
     (case v_snippet v of None \<Rightarrow> first_thumbnail Map.empty thumbnail_keys
      | Some sn \<Rightarrow> pick_best_thumbnail sn)"

definition usable_hit :: "tmdb_hit option \<Rightarrow> int option" where
  \<comment> \<open>\<open>tmdb_hit and tmdb_hit.get("id")\<close>: the identifier, unless absent or zero\<close>
  "usable_hit h =
     (case h of None \<Rightarrow> None
      | Some hit \<Rightarrow> (case hit_id hit of None \<Rightarrow> None
                     | Some i \<Rightarrow> if i = 0 then None else Some i))"

definition year_of :: "details \<Rightarrow> string" where
  "year_of d =
     (let rd = or_empty (release_date d)
      in if isdigit_str (take 4 rd) then take 4 rd else [])"

definition crew_of :: "details \<Rightarrow> crew_member list" where
  "crew_of d = (case d_credits d of None \<Rightarrow> [] | Some c \<Rightarrow> crew c)"

definition cast_of :: "details \<Rightarrow> cast_member list" where
  "cast_of d = (case d_credits d of None \<Rightarrow> [] | Some c \<Rightarrow> cast c)"

definition director_of :: "details \<Rightarrow> string" where
  "director_of d =
     (let directors = filter (\<lambda>c. job c = Some ''Director'' \<and> truthy (crew_name c)) (crew_of d)
      in case directors of [] \<Rightarrow> [] | c # _ \<Rightarrow> or_empty (crew_name c))"

definition leads_of :: "details \<Rightarrow> string list" where
  \<comment> \<open>\<open>[c.get("name") for c in cast[:2] if c.get("name")]\<close>, then \<open>leads[:2]\<close>\<close>
  "leads_of d =
     take 2 (map (\<lambda>c. or_empty (cast_name c))
               (filter (\<lambda>c. truthy (cast_name c)) (take 2 (cast_of d))))"

definition poster_of :: "details \<Rightarrow> string" where
  "poster_of d =
     (if truthy (poster_path d) then ''https://image.tmdb.org/t/p/w500'' @ or_empty (poster_path d)
      else [])"

definition imdb_of :: "details \<Rightarrow> string" where
  "imdb_of d =
     strip (case d_external_ids d of None \<Rightarrow> [] | Some x \<Rightarrow> or_empty (imdb_id x))"

definition build_item_from_video :: "env \<Rightarrow> video \<Rightarrow> state \<Rightarrow> item option result" where
  "build_item_from_video e v st =
     (let vid = v_id v in
      if \<not> YT_ID_RE_match vid then (Inr None, st)
      else
        let ttl = raw_title v in
        if ttl = [] \<or> EXCLUDE_TITLE_RE_search ttl then (Inr None, st)
        else
          let minutes = video_minutes v in
          if minutes < MIN_MINUTES then (Inr None, st)
          else
            let tmdb_title = clean_title_for_tmdb ttl in
            (case (if tmdb_title \<noteq> [] then tmdb_search_movie e tmdb_title st
                   else (Inr None, st)) of
               (Inl err, st1) \<Rightarrow> (Inl err, st1)
             | (Inr tmdb_hit, st1) \<Rightarrow>
                 (case usable_hit tmdb_hit of
                    None \<Rightarrow>
                      (case video_thumbnail v of
                         Inl err \<Rightarrow> (Inl err, st1)
                       | Inr thumb \<Rightarrow>
                           (Inr (Some \<lparr>title = ttl, year = [], director = [], leads = [],
                                       posterUrl = thumb, youtubeId = vid,
                                       awards = []\<rparr>), st1))
                  | Some movie_id \<Rightarrow>
                      (case tmdb_movie_details e movie_id st1 of
                         (Inl err, st2) \<Rightarrow> (Inl err, st2)
                       | (Inr d, st2) \<Rightarrow>
                           (case wikidata_awards_for_film e (imdb_of d) st2 of
                              (Inl err, st3) \<Rightarrow> (Inl err, st3)
                            | (Inr aw, st3) \<Rightarrow>
                                (case (if poster_of d \<noteq> [] then Inr (poster_of d)
                                       else video_thumbnail v) of
                                   Inl err \<Rightarrow> (Inl err, st3)
                                 | Inr poster_url \<Rightarrow>
                                     (Inr (Some
                                        \<lparr>title = (if truthy (d_title d) then or_empty (d_title d)
                                                   else ttl),
                                         year = year_of d,
                                         director = director_of d,
                                         leads = leads_of d,
                                         posterUrl = poster_url,
                                         youtubeId = vid,
                                         awards = aw\<rparr>), st3)))))))"

text \<open>
  \<open>random.shuffle\<close> of the standard library: for \<open>i\<close> from the last index down to 1,
  exchange the elements at \<open>i\<close> and at \<open>randbelow(i + 1)\<close>.
\<close>

fun shuffle_loop :: "(nat \<Rightarrow> nat) \<Rightarrow> nat \<Rightarrow> 'a list \<Rightarrow> 'a list" where
  "shuffle_loop rb 0 xs = xs"
| "shuffle_loop rb (Suc k) xs =
     (let i = Suc k; j = rb (i + 1) mod (i + 1)
      in shuffle_loop rb k (xs[i := xs ! j, j := xs ! i]))"

definition shuffle :: "(nat \<Rightarrow> nat) \<Rightarrow> 'a list \<Rightarrow> 'a list" where
  "shuffle rb xs = shuffle_loop rb (length xs - 1) xs"

text \<open>
  \<open>fill_row\<close>: three nested loops. The flag returned beside the items by the two inner
  loops says that the function has executed \<open>return items\<close>.
\<close>

definition new_ids :: "search_page \<Rightarrow> state \<Rightarrow> string list" where
  \<comment> \<open>the identifiers of a page that are not empty and not seen, before \<open>ids[:50]\<close>\<close>
  "new_ids data st =
     filter (\<lambda>vid. vid \<noteq> [] \<and> vid \<notin> seen_ids st) (map (\<lambda>x. strip (or_empty x)) (sp_items data))"

fun video_loop :: "env \<Rightarrow> video list \<Rightarrow> item list \<Rightarrow> state \<Rightarrow> (item list \<times> bool) result" where
  "video_loop e [] items st = (Inr (items, False), st)"
| "video_loop e (v # vs) items st =
     (if v_id v \<in> seen_ids st then video_loop e vs items st
      else
        (case build_item_from_video e v st of
           (Inl err, st1) \<Rightarrow> (Inl err, st1)
         | (Inr None, st1) \<Rightarrow> video_loop e vs items st1
         | (Inr (Some it), st1) \<Rightarrow>
             (let st2 = st1\<lparr>seen_ids := insert (v_id v) (seen_ids st1)\<rparr>;
                  items' = items @ [it]
              in if length items' \<ge> 4 then (Inr (items', True), st2)
                 else video_loop e vs items' st2)))"

fun page_loop :: "env \<Rightarrow> string \<Rightarrow> string \<Rightarrow> nat \<Rightarrow> string option \<Rightarrow> item list \<Rightarrow> state
    \<Rightarrow> (item list \<times> bool) result" where
  "page_loop e q ord 0 page_token items st = (Inr (items, False), st)"
| "page_loop e q ord (Suc n) page_token items st =
     (case yt_search e q ord page_token 25 st of
        (Inl err, st1) \<Rightarrow> (Inl err, st1)
      | (Inr data, st1) \<Rightarrow>
          (let ids = take 50 (new_ids data st1) in
           if ids = [] then
             (if \<not> truthy (nextPageToken data) then (Inr (items, False), st1)
              else page_loop e q ord n (nextPageToken data) items st1)
           else
             (case yt_videos e ids st1 of
                (Inl err, st2) \<Rightarrow> (Inl err, st2)
              | (Inr vids, st2) \<Rightarrow>
                  (case video_loop e vids items st2 of
                     (Inl err, st3) \<Rightarrow> (Inl err, st3)
                   | (Inr (items', returned), st3) \<Rightarrow>
                       if returned then (Inr (items', True), st3)
                       else if \<not> truthy (nextPageToken data) then (Inr (items', False), st3)
                       else page_loop e q ord n (nextPageToken data) items' st3))))"

fun query_loop :: "env \<Rightarrow> string list \<Rightarrow> string \<Rightarrow> item list \<Rightarrow> state \<Rightarrow> item list result" where
  "query_loop e [] ord items st = (Inr items, st)"
| "query_loop e (q # qs) ord items st =
     (case page_loop e q ord 4 None items st of
        (Inl err, st1) \<Rightarrow> (Inl err, st1)
      | (Inr (items', returned), st1) \<Rightarrow>
          if returned then (Inr items', st1)
          else if length items' \<ge> 4 then (Inr items', st1)
          else query_loop e qs ord items' st1)"

definition fill_row :: "env \<Rightarrow> string \<Rightarrow> string \<Rightarrow> state \<Rightarrow> item list result" where
  "fill_row e row_name ord st =
     (case ROW_QUERIES row_name of
        None \<Rightarrow> (Inl KeyError, st)
      | Some queries \<Rightarrow> query_loop e (shuffle (randbelow e (tick st)) queries) ord [] st)"

text \<open>\<open>main\<close>: the fallback pass, the check of the row and the loop over the rows.\<close>

definition fallback_pool :: "string list" where
  "fallback_pool = [''full movie'', ''political thriller full movie'', ''war full movie'',
     ''historical drama full movie'']"

fun fb_video_loop :: "env \<Rightarrow> video list \<Rightarrow> item list \<Rightarrow> state \<Rightarrow> item list result" where
  "fb_video_loop e [] row_items st = (Inr row_items, st)"
| "fb_video_loop e (v # vs) row_items st =
     (if length row_items \<ge> 4 then (Inr row_items, st)
      else if v_id v \<in> seen_ids st then fb_video_loop e vs row_items st
      else
        (case build_item_from_video e v st of
           (Inl err, st1) \<Rightarrow> (Inl err, st1)
         | (Inr None, st1) \<Rightarrow> fb_video_loop e vs row_items st1
         | (Inr (Some it), st1) \<Rightarrow>
             fb_video_loop e vs (row_items @ [it])
               (st1\<lparr>seen_ids := insert (v_id v) (seen_ids st1)\<rparr>)))"

fun fallback_loop :: "env \<Rightarrow> string list \<Rightarrow> string \<Rightarrow> item list \<Rightarrow> state \<Rightarrow> item list result" where
  "fallback_loop e [] ord row_items st = (Inr row_items, st)"
| "fallback_loop e (fb # fbs) ord row_items st =
     (if length row_items \<ge> 4 then (Inr row_items, st)
      else
        (case yt_search e fb ord None 25 st of
           (Inl err, st1) \<Rightarrow> (Inl err, st1)
         | (Inr data, st1) \<Rightarrow>
             (case yt_videos e (take 50 (new_ids data st1)) st1 of
                (Inl err, st2) \<Rightarrow> (Inl err, st2)
              | (Inr vids, st2) \<Rightarrow>
                  (case fb_video_loop e vids row_items st2 of
                     (Inl err, st3) \<Rightarrow> (Inl err, st3)
                   | (Inr row_items', st3) \<Rightarrow> fallback_loop e fbs ord row_items' st3))))"

definition order_of :: "string \<Rightarrow> string" where
  "order_of row =
     (if row = ''Recently Uploaded'' then ''date''
      else if row = ''Popular'' then ''viewCount''
      else ''relevance'')"

fun str_nat :: "nat \<Rightarrow> string" where
  \<comment> \<open>the decimal numeral of a number, as an f-string prints it\<close>
  "str_nat n = (if n < 10 then [char_of (48 + n)] else str_nat (n div 10) @ [char_of (48 + n mod 10)])"

definition shortfall_message :: "string \<Rightarrow> nat \<Rightarrow> string" where
  "shortfall_message row n =
     ''Could not fill row '' @ [CHR 0x27] @ row @ [CHR 0x27] @ '' with 4 valid movies. Found ''
       @ str_nat n @ ''.''"

definition fill_with_fallback :: "env \<Rightarrow> string \<Rightarrow> state \<Rightarrow> item list result" where
  \<comment> \<open>the body of the loop over the rows, up to the end of the fallback pass\<close>
  "fill_with_fallback e row st =
     (case fill_row e row (order_of row) st of
        (Inl err, st1) \<Rightarrow> (Inl err, st1)
      | (Inr row_items, st1) \<Rightarrow>
          if length row_items < 4
          then fallback_loop e fallback_pool (order_of row) row_items st1
          else (Inr row_items, st1))"

fun row_loop :: "env \<Rightarrow> string list \<Rightarrow> item list \<Rightarrow> state \<Rightarrow> item list result" where
  \<comment> \<open>the loop over the rows: the body above, the check of the row, \<open>all_items.extend\<close>\<close>
  "row_loop e [] all_items st = (Inr all_items, st)"
| "row_loop e (row # rows) all_items st =
     (case fill_with_fallback e row st of
        (Inl err, st1) \<Rightarrow> (Inl err, st1)
      | (Inr row_items, st1) \<Rightarrow>
          if length row_items < 4
          then (Inl (SystemExit (shortfall_message row (length row_items))), st1)
          else row_loop e rows (all_items @ row_items) st1)"

definition criteria_text :: string where
  "criteria_text =
     ''Public daily mix: drama, history, war, political thrillers. Secondary action thrillers.''"

definition main :: "env \<Rightarrow> state \<Rightarrow> unit result" where
  "main e st =
     (case row_loop e ROW_TITLES [] (st\<lparr>seen_ids := {}\<rparr>) of
        (Inl err, st1) \<Rightarrow> (Inl err, st1)
      | (Inr all_items, st1) \<Rightarrow>
          (Inr (), st1\<lparr>artifact := Some \<lparr>date = utc_today e, criteria = criteria_text,
                                          row_titles = ROW_TITLES, p_items = all_items\<rparr>\<rparr>))"

section \<open>The specification's wording, and stub services\<close>

text \<open>
  The compact duration form as the specification words it: the letters \<open>PT\<close>, then an
  optional number with \<open>H\<close>, an optional number with \<open>M\<close>, an optional number with
  \<open>S\<close>, and nothing else.
\<close>

definition unit_part :: "string option \<Rightarrow> char \<Rightarrow> string" where
  "unit_part g u = (case g of None \<Rightarrow> [] | Some ds \<Rightarrow> ds @ [u])"

definition compact_form :: "string option \<Rightarrow> string option \<Rightarrow> string option \<Rightarrow> string" where
  "compact_form hs ms ss =
     ''PT'' @ unit_part hs CHR ''H'' @ unit_part ms CHR ''M'' @ unit_part ss CHR ''S''"

definition digits_ok :: "string option \<Rightarrow> bool" where
  "digits_ok g = (case g of None \<Rightarrow> True | Some ds \<Rightarrow> ds \<noteq> [] \<and> list_all re_digit ds)"

text \<open>
  The identifier format as the specification words it: exactly 11 characters, each
  alphanumeric or one of \<open>_\<close> and \<open>-\<close>.
\<close>

definition strict_id :: "string \<Rightarrow> bool" where
  "strict_id vid = (length vid = 11 \<and> list_all id_char vid)"

text \<open>The three checks a candidate passes before the enrichment starts.\<close>

definition passes_validation :: "video \<Rightarrow> bool" where
  "passes_validation v =
     (YT_ID_RE_match (v_id v) \<and> raw_title v \<noteq> [] \<and> \<not> EXCLUDE_TITLE_RE_search (raw_title v)
      \<and> MIN_MINUTES \<le> video_minutes v)"

text \<open>
  The film that the enrichment looks up: the identifier of the first result of the movie
  search, unless it is absent or zero; and the details that the detail service returns
  for it. The search is the request number \<open>tick st\<close> of the run, the detail lookup
  the next one.
\<close>

definition matched_film :: "tmdb_hit list \<Rightarrow> int option" where
  "matched_film hits =
     (case hits of [] \<Rightarrow> None
      | h # _ \<Rightarrow> (case hit_id h of None \<Rightarrow> None | Some i \<Rightarrow> if i = 0 then None else Some i))"

definition detail_lookup :: "env \<Rightarrow> video \<Rightarrow> state \<Rightarrow> details option" where
  "detail_lookup e v st =
     (if clean_title_for_tmdb (raw_title v) = [] then None
      else
        (case tmdb_search_api e (tick st) (clean_title_for_tmdb (raw_title v)) of
           Inl _ \<Rightarrow> None
         | Inr hits \<Rightarrow>
             (case matched_film hits of
                None \<Rightarrow> None
              | Some m \<Rightarrow>
                  (case tmdb_details_api e (Suc (tick st)) m of
                     Inl _ \<Rightarrow> None
                   | Inr d \<Rightarrow> Some d))))"

text \<open>The title of a candidate, stripped; empty if the snippet or its title is missing.\<close>

definition stripped_title :: "video \<Rightarrow> string" where
  "stripped_title v =
     (case v_snippet v of None \<Rightarrow> []
      | Some sn \<Rightarrow> (case sn_title sn of None \<Rightarrow> [] | Some t \<Rightarrow> strip t))"

text \<open>
  The Item of a candidate for which the enrichment found nothing, and the Item of a
  candidate whose detail lookup returned \<open>d\<close> and whose awards are \<open>aw\<close>; \<open>p\<close> is the
  poster.
\<close>

definition degraded_item :: "video \<Rightarrow> string \<Rightarrow> item" where
  "degraded_item v p =
     \<lparr>title = raw_title v, year = [], director = [], leads = [],
      posterUrl = p, youtubeId = v_id v, awards = []\<rparr>"

definition enriched_item :: "video \<Rightarrow> details \<Rightarrow> string list \<Rightarrow> string \<Rightarrow> item" where
  "enriched_item v d aw p =
     \<lparr>title = (if truthy (d_title d) then or_empty (d_title d) else raw_title v),
      year = year_of d, director = director_of d, leads = leads_of d,
      posterUrl = p, youtubeId = v_id v, awards = aw\<rparr>"

text \<open>
  The leads as the specification words them: the first two cast entries that have a
  non-empty name, in listed order.
\<close>

definition first_two_named :: "cast_member list \<Rightarrow> string list" where
  "first_two_named cs =
     take 2 (map (\<lambda>c. or_empty (cast_name c)) (filter (\<lambda>c. truthy (cast_name c)) cs))"

text \<open>
  The leads as the code's comment words them, the top two billed cast names: the names
  of the first entry and of the second entry, each only if it is not empty.
\<close>

definition name_if_any :: "cast_member \<Rightarrow> string list" where
  "name_if_any c = (case cast_name c of None \<Rightarrow> [] | Some n \<Rightarrow> if n = [] then [] else [n])"

fun billed_names :: "cast_member list \<Rightarrow> string list" where
  "billed_names [] = []"
| "billed_names [a] = name_if_any a"
| "billed_names (a # b # _) = name_if_any a @ name_if_any b"

text \<open>
  The thumbnail variants of a snippet: whether a variant is present with a non-empty URL,
  that URL, whether a variant is present as \<open>null\<close>, and the URL of the best variant in
  the order maxres, standard, high, medium, default.
\<close>

definition has_url :: "snippet \<Rightarrow> string \<Rightarrow> bool" where
  "has_url sn k =
     (case sn_thumbnails sn of None \<Rightarrow> False
      | Some thumbs \<Rightarrow>
          (case thumbs k of Some (Some t) \<Rightarrow> (case url t of None \<Rightarrow> False | Some u \<Rightarrow> u \<noteq> [])
           | _ \<Rightarrow> False))"

definition url_at :: "snippet \<Rightarrow> string \<Rightarrow> string" where
  "url_at sn k =
     (case sn_thumbnails sn of None \<Rightarrow> []
      | Some thumbs \<Rightarrow>
          (case thumbs k of Some (Some t) \<Rightarrow> (case url t of None \<Rightarrow> [] | Some u \<Rightarrow> u)
           | _ \<Rightarrow> []))"

definition null_variant :: "snippet \<Rightarrow> string \<Rightarrow> bool" where
  "null_variant sn k =
     (case sn_thumbnails sn of None \<Rightarrow> False | Some thumbs \<Rightarrow> thumbs k = Some None)"

definition best_thumbnail :: "snippet \<Rightarrow> string" where
  "best_thumbnail sn =
     (if has_url sn ''maxres'' then url_at sn ''maxres''
      else if has_url sn ''standard'' then url_at sn ''standard''
      else if has_url sn ''high'' then url_at sn ''high''
      else if has_url sn ''medium'' then url_at sn ''medium''
      else if has_url sn ''default'' then url_at sn ''default''
      else [])"

text \<open>
  Stub services for the concrete runs below: a search that finds nothing, a movie search
  that returns the given hits, a detail lookup that returns the given details, and a
  knowledge graph that answers 200 with the given bindings.
\<close>

definition no_page :: search_page where
  "no_page = \<lparr>sp_items = [], nextPageToken = None\<rparr>"

definition no_details :: details where
  "no_details = \<lparr>release_date = None, d_credits = None, poster_path = None,
     d_external_ids = None, d_title = None\<rparr>"

definition stub_env :: "tmdb_hit list \<Rightarrow> details \<Rightarrow> string list \<Rightarrow> env" where
  "stub_env hits d uris =
     \<lparr>yt_search_api = (\<lambda>_ _ _ _ _. Inr no_page),
      yt_videos_api = (\<lambda>_ _. Inr []),
      tmdb_search_api = (\<lambda>_ _. Inr hits),
      tmdb_details_api = (\<lambda>_ _. Inr d),
      wikidata_api = (\<lambda>_ _. Inr \<lparr>status_code = 200, bindings = uris\<rparr>),
      randbelow = (\<lambda>_ _. 0),
      utc_today = ''2024-01-01''\<rparr>"

definition plain_video :: "string \<Rightarrow> string \<Rightarrow> string \<Rightarrow> video" where
  "plain_video vid ttl dur =
     \<lparr>v_id = vid, v_snippet = Some \<lparr>sn_title = Some ttl, sn_thumbnails = None\<rparr>,
      v_contentDetails = Some \<lparr>duration = Some dur\<rparr>\<rparr>"

definition start :: state where
  "start = \<lparr>seen_ids = {}, calls = [], artifact = None\<rparr>"

definition titled_details :: details where
  "titled_details = no_details\<lparr>d_title := Some ''Documentary''\<rparr>"

definition cast_details :: details where
  "cast_details = no_details\<lparr>d_credits := Some \<lparr>crew = [],
     cast = [\<lparr>cast_name = Some []\<rparr>, \<lparr>cast_name = Some ''Alice''\<rparr>, \<lparr>cast_name = Some ''Bob''\<rparr>]\<rparr>\<rparr>"

text \<open>
  A snippet whose best variant is present as \<open>null\<close> while a lower one has a URL, and a
  candidate with that snippet.
\<close>

definition null_snippet :: snippet where
  "null_snippet =
     \<lparr>sn_title = Some ''War Film'',
      sn_thumbnails = Some [''maxres'' \<mapsto> None, ''high'' \<mapsto> Some \<lparr>url = Some ''http://h''\<rparr>]\<rparr>"

definition null_thumb_video :: video where
  "null_thumb_video =
     \<lparr>v_id = ''AAAAAAAAAAA'', v_snippet = Some null_snippet,
      v_contentDetails = Some \<lparr>duration = Some ''PT2H''\<rparr>\<rparr>"

definition two_thumbs :: snippet where
  "two_thumbs =
     \<lparr>sn_title = None,
      sn_thumbnails = Some [''default'' \<mapsto> Some \<lparr>url = Some ''http://d''\<rparr>,
                            ''high'' \<mapsto> Some \<lparr>url = Some ''http://h''\<rparr>,
                            ''maxres'' \<mapsto> Some \<lparr>url = Some []\<rparr>]\<rparr>"

definition award_uris :: "string list" where
  "award_uris = [''http://www.wikidata.org/entity/Q106291'', ''http://www.wikidata.org/entity/Q5'',
     ''http://www.wikidata.org/entity/Q106291'', ''http://www.wikidata.org/entity/Q103360'']"

text \<open>
  Relations between the state before and after a part of a run: the requests added to
  the log, which of them are searches, and the Items added to a list of Items.
\<close>

definition is_search :: "call \<Rightarrow> bool" where
  "is_search c = (case c of YtSearch _ _ _ _ \<Rightarrow> True | _ \<Rightarrow> False)"

definition search_for :: "string \<Rightarrow> call \<Rightarrow> bool" where
  "search_for q c = (case c of YtSearch q' _ _ _ \<Rightarrow> q' = q | _ \<Rightarrow> False)"

definition searches :: "call list \<Rightarrow> call list" where
  "searches cs = filter is_search cs"

definition new_calls :: "state \<Rightarrow> state \<Rightarrow> call list" where
  "new_calls st st' = drop (length (calls st)) (calls st')"

definition extends :: "state \<Rightarrow> state \<Rightarrow> bool" where
  "extends st st' =
     (seen_ids st \<subseteq> seen_ids st' \<and> artifact st' = artifact st
      \<and> calls st' = calls st @ new_calls st st')"

definition quiet :: "state \<Rightarrow> state \<Rightarrow> bool" where
  "quiet st st' = (extends st st' \<and> seen_ids st' = seen_ids st \<and> searches (new_calls st st') = [])"

definition added_ok :: "state \<Rightarrow> state \<Rightarrow> item list \<Rightarrow> item list \<Rightarrow> bool" where
  "added_ok st st' items items' =
     (\<exists>added. items' = items @ added
        \<and> seen_ids st' = seen_ids st \<union> set (map youtubeId added)
        \<and> distinct (map youtubeId added)
        \<and> set (map youtubeId added) \<inter> seen_ids st = {})"

definition silent :: "state \<Rightarrow> state \<Rightarrow> bool" where
  "silent st st' = (extends st st' \<and> searches (new_calls st st') = [])"

definition searched :: "string \<Rightarrow> nat \<Rightarrow> (string \<Rightarrow> nat) \<Rightarrow> state \<Rightarrow> state \<Rightarrow> bool" where
  "searched ord n f st st' =
     (extends st st'
      \<and> (\<forall>c \<in> set (searches (new_calls st st')). \<exists>q tok. c = YtSearch q ord tok 25)
      \<and> length (searches (new_calls st st')) \<le> n
      \<and> (\<forall>q. length (filter (search_for q) (new_calls st st')) \<le> f q))"

definition row_post :: "state \<Rightarrow> state \<Rightarrow> item list \<Rightarrow> item list \<Rightarrow> bool \<Rightarrow> bool" where
  "row_post st st' items items' ret =
     (added_ok st st' items items' \<and> length items' \<le> 4 \<and> (ret \<longleftrightarrow> length items' = 4))"

section \<open>The duration parser\<close>

lemma re_digit_units [simp]:
  "\<not> re_digit CHR ''H''" "\<not> re_digit CHR ''M''" "\<not> re_digit CHR ''S''"
  by (simp_all add: re_digit_def code_def)

lemma opt_group_hit:
  assumes "ds \<noteq> []" "list_all re_digit ds" "\<not> re_digit u"
  shows "opt_group u (ds @ u # r) = (Some ds, r)"
proof -
  have t: "takeWhile re_digit (ds @ u # r) = ds"
    using assms by (simp add: list_all_iff takeWhile_append2)
  have d: "dropWhile re_digit (ds @ u # r) = u # r"
    using assms by (simp add: list_all_iff dropWhile_append2)
  show ?thesis using assms(1) by (simp add: opt_group_def t d)
qed

lemma opt_group_other:
  assumes "list_all re_digit ds" "\<not> re_digit c" "c \<noteq> u"
  shows "opt_group u (ds @ c # r) = (None, ds @ c # r)"
proof -
  have d: "dropWhile re_digit (ds @ c # r) = c # r"
    using assms by (simp add: list_all_iff dropWhile_append2)
  show ?thesis using assms(3) by (simp add: opt_group_def d Let_def)
qed

lemma opt_group_nil: "opt_group u [] = (None, [])"
  by (simp add: opt_group_def)

lemma duration_match_compact:
  assumes "digits_ok hs" "digits_ok ms" "digits_ok ss"
  shows "duration_match (compact_form hs ms ss) = Some (hs, ms, ss)"
  using assms
  by (cases hs; cases ms; cases ss)
     (simp_all add: compact_form_def unit_part_def digits_ok_def duration_match_def at_end_def
        opt_group_hit opt_group_nil opt_group_other [where ds = "[]", simplified] opt_group_other)

text \<open>
  On every string of the compact form the parser returns the minutes of the
  specification's formula.
\<close>

lemma iso8601_compact:
  assumes "digits_ok hs" "digits_ok ms" "digits_ok ss"
  shows "iso8601_duration_to_minutes (compact_form hs ms ss)
         = group_int hs * 60 + group_int ms + (if group_int ss \<ge> 30 then 1 else 0)"
  by (simp add: iso8601_duration_to_minutes_def duration_match_compact [OF assms])

lemma iso8601_examples:
  "iso8601_duration_to_minutes ''PT2H10M'' = 130"
  "iso8601_duration_to_minutes ''PT95M'' = 95"
  "iso8601_duration_to_minutes ''PT1H'' = 60"
  "iso8601_duration_to_minutes ''PT1H0M45S'' = 61"
  "iso8601_duration_to_minutes [] = 0"
  by code_simp+

lemma compact_form_last:
  "last (compact_form hs ms ss) \<in> {CHR ''T'', CHR ''H'', CHR ''M'', CHR ''S''}"
  by (cases hs; cases ms; cases ss) (simp_all add: compact_form_def unit_part_def)

text \<open>
  Claim C5. The parser is to return 0 for every input that is not of the compact form
  \<open>PT[nH][nM][nS]\<close>. The string \<open>PT1H\<close> followed by a newline is not of that form, and
  the parser returns 60 for it: the anchor \<open>$\<close> of the pattern also matches just before
  a final newline.
\<close>

theorem iso8601_trailing_newline:
  "iso8601_duration_to_minutes (''PT1H'' @ [CHR 0x0A]) = 60
   \<and> (\<nexists>hs ms ss. ''PT1H'' @ [CHR 0x0A] = compact_form hs ms ss)"
proof
  show "iso8601_duration_to_minutes (''PT1H'' @ [CHR 0x0A]) = 60" by code_simp
  show "\<nexists>hs ms ss. ''PT1H'' @ [CHR 0x0A] = compact_form hs ms ss"
  proof
    assume "\<exists>hs ms ss. ''PT1H'' @ [CHR 0x0A] = compact_form hs ms ss"
    then obtain hs ms ss where e: "''PT1H'' @ [CHR 0x0A] = compact_form hs ms ss" by blast
    have "last (''PT1H'' @ [CHR 0x0A]) = CHR 0x0A" by simp
    with compact_form_last [of hs ms ss] e show False by simp
  qed
qed

section \<open>Candidate validation\<close>

lemma build_item_None_iff:
  "fst (build_item_from_video e v st) = Inr None \<longleftrightarrow> \<not> passes_validation v"
  by (auto simp: build_item_from_video_def passes_validation_def Let_def
        split: prod.splits sum.splits option.splits)

text \<open>
  The pattern accepts the identifiers of the strict format, and each of them followed by
  one newline.
\<close>

lemma YT_ID_RE_match_iff:
  "YT_ID_RE_match vid \<longleftrightarrow> strict_id vid \<or> (\<exists>w. vid = w @ [CHR 0x0A] \<and> strict_id w)"
proof
  assume m: "YT_ID_RE_match vid"
  then have l: "11 \<le> length vid" and a: "list_all id_char (take 11 vid)"
    and e: "drop 11 vid = [] \<or> drop 11 vid = [CHR 0x0A]"
    by (simp_all add: YT_ID_RE_match_def at_end_def)
  from e show "strict_id vid \<or> (\<exists>w. vid = w @ [CHR 0x0A] \<and> strict_id w)"
  proof
    assume "drop 11 vid = []"
    with l a show ?thesis by (simp add: strict_id_def)
  next
    assume d: "drop 11 vid = [CHR 0x0A]"
    have "vid = take 11 vid @ drop 11 vid" by simp
    with d have "vid = take 11 vid @ [CHR 0x0A]" by simp
    moreover have "strict_id (take 11 vid)" using l a by (simp add: strict_id_def)
    ultimately show ?thesis by blast
  qed
next
  assume "strict_id vid \<or> (\<exists>w. vid = w @ [CHR 0x0A] \<and> strict_id w)"
  then show "YT_ID_RE_match vid"
    by (auto simp: YT_ID_RE_match_def strict_id_def at_end_def)
qed

lemma validator_examples:
  "fst (build_item_from_video (stub_env [] no_details [])
          (plain_video ''AAAAAAAAAAA'' ''War Film'' ''PT74M'') start) = Inr None"
  "fst (build_item_from_video (stub_env [] no_details [])
          (plain_video ''AAAAAAAAAAA'' ''War Film'' ''PT75M'') start) \<noteq> Inr None"
  "fst (build_item_from_video (stub_env [] no_details [])
          (plain_video ''AAAAAAAAAAA'' ''A documentary, restored'' ''PT3H'') start) = Inr None"
  by code_simp+

text \<open>
  Claim C4. A candidate whose identifier is not of the strict format (exactly 11
  characters of the class) is to be rejected. The candidate below has an identifier of
  12 characters, eleven letters and a newline, a plain title and 80 minutes; the code
  accepts it and puts the identifier into the Item.
\<close>

theorem build_item_accepts_newline_id:
  "fst (build_item_from_video (stub_env [] no_details [])
          (plain_video (''AAAAAAAAAAA'' @ [CHR 0x0A]) ''War Film'' ''PT80M'') start)
     = Inr (Some \<lparr>title = ''War Film'', year = [], director = [], leads = [], posterUrl = [],
                  youtubeId = ''AAAAAAAAAAA'' @ [CHR 0x0A], awards = []\<rparr>)
   \<and> \<not> strict_id (''AAAAAAAAAAA'' @ [CHR 0x0A])"
  by code_simp

section \<open>Enrichment\<close>

text \<open>
  An Item that \<open>build_item_from_video\<close> returns comes from a candidate that passed the
  three checks. If no detail lookup of a matched film was made, it is the degraded Item;
  otherwise it is the Item built from the details which that lookup returned.
\<close>

lemma tick_log_call: "tick (log_call c st) = Suc (tick st)"
  by (simp add: tick_def log_call_def)

lemma usable_hit_first: "usable_hit (case hits of [] \<Rightarrow> None | h # _ \<Rightarrow> Some h) = matched_film hits"
  by (simp add: usable_hit_def matched_film_def split: list.splits)

lemma usable_hit_None: "usable_hit None = None"
  by (simp add: usable_hit_def)

lemma raw_title_stripped: "raw_title v = stripped_title v"
  by (simp add: raw_title_def stripped_title_def or_empty_def strip_def split: option.splits)

lemma build_item_cases:
  assumes "build_item_from_video e v st = (Inr (Some it), st')"
  shows "passes_validation v \<and>
         (case detail_lookup e v st of
            None \<Rightarrow> (\<exists>p. video_thumbnail v = Inr p \<and> it = degraded_item v p)
          | Some d \<Rightarrow>
              (\<exists>aw p. (if poster_of d \<noteq> [] then Inr (poster_of d) else video_thumbnail v) = Inr p
                 \<and> it = enriched_item v d aw p))"
  using assms
  unfolding build_item_from_video_def passes_validation_def Let_def degraded_item_def
    enriched_item_def tmdb_movie_details_def tmdb_search_movie_def detail_lookup_def
  by (auto simp: tick_log_call usable_hit_first usable_hit_None
      split: if_splits prod.splits sum.splits option.splits)


lemma build_item_id:
  "build_item_from_video e v st = (Inr (Some it), st') \<Longrightarrow> youtubeId it = v_id v"
  using build_item_cases [of e v st it st']
  by (auto simp: degraded_item_def enriched_item_def split: option.splits)

text \<open>
  What the enrichment returns for a candidate that passed validation and whose own
  thumbnail is \<open>p\<close>: the degraded Item when the sanitized title is empty (no request), when
  the movie search has no usable first result (one request), and when the detail record
  has every field missing (two requests, none to the knowledge graph); and for any detail
  record with an external identifier, an Item without awards when the knowledge graph
  answers with a status other than 200.
\<close>

lemma enriched_no_details: "enriched_item v no_details [] p = degraded_item v p"
  by (simp add: enriched_item_def degraded_item_def no_details_def truthy_def year_of_def
      or_empty_def isdigit_str_def director_of_def crew_of_def leads_of_def cast_of_def)

lemma imdb_of_no_details: "imdb_of no_details = []"
  by (simp add: imdb_of_def no_details_def strip_def)

lemma poster_of_no_details: "poster_of no_details = []"
  by (simp add: poster_of_def no_details_def truthy_def)

lemma enrichment_degrades:
  assumes "passes_validation v" "video_thumbnail v = Inr p"
  shows "clean_title_for_tmdb (raw_title v) = []
         \<Longrightarrow> build_item_from_video e v st = (Inr (Some (degraded_item v p)), st)"
    and "clean_title_for_tmdb (raw_title v) \<noteq> []
         \<Longrightarrow> tmdb_search_api e (tick st) (clean_title_for_tmdb (raw_title v)) = Inr hits
         \<Longrightarrow> matched_film hits = None
         \<Longrightarrow> build_item_from_video e v st
               = (Inr (Some (degraded_item v p)),
                  log_call (TmdbSearch (clean_title_for_tmdb (raw_title v))) st)"
    and "clean_title_for_tmdb (raw_title v) \<noteq> []
         \<Longrightarrow> tmdb_search_api e (tick st) (clean_title_for_tmdb (raw_title v)) = Inr hits
         \<Longrightarrow> matched_film hits = Some m
         \<Longrightarrow> tmdb_details_api e (Suc (tick st)) m = Inr no_details
         \<Longrightarrow> build_item_from_video e v st
               = (Inr (Some (degraded_item v p)),
                  log_call (TmdbDetails m)
                    (log_call (TmdbSearch (clean_title_for_tmdb (raw_title v))) st))"
    and "clean_title_for_tmdb (raw_title v) \<noteq> []
         \<Longrightarrow> tmdb_search_api e (tick st) (clean_title_for_tmdb (raw_title v)) = Inr hits
         \<Longrightarrow> matched_film hits = Some m
         \<Longrightarrow> tmdb_details_api e (Suc (tick st)) m = Inr d
         \<Longrightarrow> imdb_of d \<noteq> []
         \<Longrightarrow> wikidata_api e (Suc (Suc (tick st))) (imdb_of d) = Inr r
         \<Longrightarrow> status_code r \<noteq> 200
         \<Longrightarrow> build_item_from_video e v st
               = (Inr (Some (enriched_item v d []
                               (if poster_of d \<noteq> [] then poster_of d else p))),
                  log_call (Wikidata (imdb_of d))
                    (log_call (TmdbDetails m)
                      (log_call (TmdbSearch (clean_title_for_tmdb (raw_title v))) st)))"
proof -
  note defs = build_item_from_video_def passes_validation_def Let_def tmdb_search_movie_def
    tmdb_movie_details_def tick_log_call wikidata_awards_for_film_def usable_hit_first
    usable_hit_None degraded_item_def enriched_item_def
  show "clean_title_for_tmdb (raw_title v) = []
         \<Longrightarrow> build_item_from_video e v st = (Inr (Some (degraded_item v p)), st)"
    using assms by (simp add: defs)
  show "clean_title_for_tmdb (raw_title v) \<noteq> []
         \<Longrightarrow> tmdb_search_api e (tick st) (clean_title_for_tmdb (raw_title v)) = Inr hits
         \<Longrightarrow> matched_film hits = None
         \<Longrightarrow> build_item_from_video e v st
               = (Inr (Some (degraded_item v p)),
                  log_call (TmdbSearch (clean_title_for_tmdb (raw_title v))) st)"
    using assms by (simp add: defs)
  show "clean_title_for_tmdb (raw_title v) \<noteq> []
         \<Longrightarrow> tmdb_search_api e (tick st) (clean_title_for_tmdb (raw_title v)) = Inr hits
         \<Longrightarrow> matched_film hits = Some m
         \<Longrightarrow> tmdb_details_api e (Suc (tick st)) m = Inr no_details
         \<Longrightarrow> build_item_from_video e v st
               = (Inr (Some (degraded_item v p)),
                  log_call (TmdbDetails m)
                    (log_call (TmdbSearch (clean_title_for_tmdb (raw_title v))) st))"
    using assms enriched_no_details [of v p]
    by (simp add: defs imdb_of_no_details poster_of_no_details)
  show "clean_title_for_tmdb (raw_title v) \<noteq> []
         \<Longrightarrow> tmdb_search_api e (tick st) (clean_title_for_tmdb (raw_title v)) = Inr hits
         \<Longrightarrow> matched_film hits = Some m
         \<Longrightarrow> tmdb_details_api e (Suc (tick st)) m = Inr d
         \<Longrightarrow> imdb_of d \<noteq> []
         \<Longrightarrow> wikidata_api e (Suc (Suc (tick st))) (imdb_of d) = Inr r
         \<Longrightarrow> status_code r \<noteq> 200
         \<Longrightarrow> build_item_from_video e v st
               = (Inr (Some (enriched_item v d []
                               (if poster_of d \<noteq> [] then poster_of d else p))),
                  log_call (Wikidata (imdb_of d))
                    (log_call (TmdbDetails m)
                      (log_call (TmdbSearch (clean_title_for_tmdb (raw_title v))) st)))"
    using assms by (simp add: defs)
qed

text \<open>
  Claim C6. A validated candidate whose sanitized title finds no match is to become an
  Item whose poster is the candidate's own best thumbnail, and such a degraded outcome is
  never to abort the run. The candidate below passed validation and has a usable
  \<open>high\<close> thumbnail, but its \<open>maxres\<close> variant is \<open>null\<close>; the movie search finds
  nothing, the fallback to the thumbnail raises AttributeError, and no Item is returned.
\<close>

theorem enrichment_aborts_on_null_variant:
  "build_item_from_video (stub_env [] no_details []) null_thumb_video start
     = (Inl AttributeError, log_call (TmdbSearch ''War Film'') start)
   \<and> passes_validation null_thumb_video
   \<and> has_url null_snippet ''high''"
  by code_simp

text \<open>
  Claim C7, as the specification states it, fails: the canonical title of the detail
  lookup replaces the raw title without being checked against the exclusion pattern.
\<close>

theorem canonical_title_unchecked:
  "build_item_from_video (stub_env [\<lparr>hit_id = Some 1\<rparr>] titled_details [])
          (plain_video ''AAAAAAAAAAA'' ''War Film'' ''PT80M'') start
     = (Inr (Some \<lparr>title = ''Documentary'', year = [], director = [], leads = [], posterUrl = [],
                  youtubeId = ''AAAAAAAAAAA'', awards = []\<rparr>),
        \<lparr>seen_ids = {}, calls = [TmdbSearch ''War Film'', TmdbDetails 1], artifact = None\<rparr>)
   \<and> EXCLUDE_TITLE_RE_search ''Documentary''"
  by code_simp

text \<open>
  Claim C7, amended. Every Item has a non-empty title, and the stripped title of its
  candidate does not match the exclusion pattern. The title of the Item is the canonical
  title that the detail lookup of the matched film returned, if that lookup was made and
  returned a non-empty title, and the stripped title of the candidate otherwise; the
  canonical title is not checked against the pattern.
\<close>

theorem item_title:
  assumes "build_item_from_video e v st = (Inr (Some it), st')"
  shows "title it \<noteq> [] \<and> \<not> EXCLUDE_TITLE_RE_search (stripped_title v)
         \<and> title it =
             (case detail_lookup e v st of
                None \<Rightarrow> stripped_title v
              | Some d \<Rightarrow>
                  (case d_title d of
                     None \<Rightarrow> stripped_title v
                   | Some t \<Rightarrow> if t = [] then stripped_title v else t))"
proof -
  from build_item_cases [OF assms] have pv: "passes_validation v"
    and c: "case detail_lookup e v st of
            None \<Rightarrow> (\<exists>p. video_thumbnail v = Inr p \<and> it = degraded_item v p)
          | Some d \<Rightarrow>
              (\<exists>aw p. (if poster_of d \<noteq> [] then Inr (poster_of d) else video_thumbnail v) = Inr p
                 \<and> it = enriched_item v d aw p)"
    by simp_all
  from pv have t: "stripped_title v \<noteq> []" "\<not> EXCLUDE_TITLE_RE_search (stripped_title v)"
    by (simp_all add: passes_validation_def raw_title_stripped)
  show ?thesis
  proof (cases "detail_lookup e v st")
    case None
    with c t show ?thesis by (auto simp: degraded_item_def raw_title_stripped)
  next
    case (Some d)
    with c obtain aw p where "it = enriched_item v d aw p" by auto
    with Some t show ?thesis
      by (auto simp: enriched_item_def raw_title_stripped truthy_def or_empty_def
          split: option.splits)
  qed
qed

theorem item_title_witness:
  "build_item_from_video (stub_env [\<lparr>hit_id = Some 1\<rparr>] titled_details [])
          (plain_video ''AAAAAAAAAAA'' ''War Film'' ''PT80M'') start
     = (Inr (Some \<lparr>title = ''Documentary'', year = [], director = [], leads = [], posterUrl = [],
                  youtubeId = ''AAAAAAAAAAA'', awards = []\<rparr>),
        \<lparr>seen_ids = {}, calls = [TmdbSearch ''War Film'', TmdbDetails 1], artifact = None\<rparr>)
   \<and> \<not> EXCLUDE_TITLE_RE_search (stripped_title (plain_video ''AAAAAAAAAAA'' ''War Film'' ''PT80M''))
   \<and> ''Documentary'' =
       (case detail_lookup (stub_env [\<lparr>hit_id = Some 1\<rparr>] titled_details [])
               (plain_video ''AAAAAAAAAAA'' ''War Film'' ''PT80M'') start of
          None \<Rightarrow> stripped_title (plain_video ''AAAAAAAAAAA'' ''War Film'' ''PT80M'')
        | Some d \<Rightarrow>
            (case d_title d of
               None \<Rightarrow> stripped_title (plain_video ''AAAAAAAAAAA'' ''War Film'' ''PT80M'')
             | Some t \<Rightarrow>
                 if t = [] then stripped_title (plain_video ''AAAAAAAAAAA'' ''War Film'' ''PT80M'')
                 else t))"
proof -
  have b: "build_item_from_video (stub_env [\<lparr>hit_id = Some 1\<rparr>] titled_details [])
          (plain_video ''AAAAAAAAAAA'' ''War Film'' ''PT80M'') start
     = (Inr (Some \<lparr>title = ''Documentary'', year = [], director = [], leads = [], posterUrl = [],
                  youtubeId = ''AAAAAAAAAAA'', awards = []\<rparr>),
        \<lparr>seen_ids = {}, calls = [TmdbSearch ''War Film'', TmdbDetails 1], artifact = None\<rparr>)"
    by code_simp
  from item_title [OF b] show ?thesis using b by simp
qed

text \<open>
  Claim C8, as the specification states it, fails: the cast list is cut to its first two
  entries before the entries without a name are dropped, so an entry with an empty name
  among the first two is not made up for by the third.
\<close>

theorem leads_skip_counterexample:
  "build_item_from_video (stub_env [\<lparr>hit_id = Some 1\<rparr>] cast_details [])
          (plain_video ''AAAAAAAAAAA'' ''War Film'' ''PT80M'') start
     = (Inr (Some \<lparr>title = ''War Film'', year = [], director = [], leads = [''Alice''],
                  posterUrl = [], youtubeId = ''AAAAAAAAAAA'', awards = []\<rparr>),
        \<lparr>seen_ids = {}, calls = [TmdbSearch ''War Film'', TmdbDetails 1], artifact = None\<rparr>)
   \<and> first_two_named (cast_of cast_details) = [''Alice'', ''Bob'']"
  by code_simp

lemma leads_of_billed:
  "leads_of d = (case d_credits d of None \<Rightarrow> [] | Some c \<Rightarrow> billed_names (cast c))"
proof (cases "d_credits d")
  case None
  then show ?thesis by (simp add: leads_of_def cast_of_def)
next
  case (Some c)
  have "take 2 (map (\<lambda>c. or_empty (cast_name c)) (filter (\<lambda>c. truthy (cast_name c)) (take 2 cs)))
        = billed_names cs" for cs
  proof (cases cs rule: billed_names.cases)
    case 1
    then show ?thesis by simp
  next
    case (2 a)
    then show ?thesis
      by (simp add: name_if_any_def truthy_def or_empty_def split: option.splits)
  next
    case (3 a b r)
    then show ?thesis
      by (simp add: name_if_any_def truthy_def or_empty_def numeral_2_eq_2 split: option.splits)
  qed
  with Some show ?thesis by (simp add: leads_of_def cast_of_def)
qed

text \<open>
  Claim C8, amended. The leads of an Item are the top two billed names: if the detail
  lookup of the matched film was made, the name of the first cast entry and the name of
  the second cast entry of its result, in that order, each only if it is not empty; and
  no names if no detail lookup was made. A later entry never stands in for an entry with
  an empty name.
\<close>

theorem item_leads:
  assumes "build_item_from_video e v st = (Inr (Some it), st')"
  shows "leads it =
           (case detail_lookup e v st of
              None \<Rightarrow> []
            | Some d \<Rightarrow> (case d_credits d of None \<Rightarrow> [] | Some c \<Rightarrow> billed_names (cast c)))"
proof (cases "detail_lookup e v st")
  case None
  with build_item_cases [OF assms] show ?thesis by (auto simp: degraded_item_def)
next
  case (Some d)
  with build_item_cases [OF assms] obtain aw p where "it = enriched_item v d aw p" by auto
  with Some show ?thesis by (simp add: enriched_item_def leads_of_billed)
qed

theorem item_leads_witness:
  "build_item_from_video (stub_env [\<lparr>hit_id = Some 1\<rparr>] cast_details [])
          (plain_video ''AAAAAAAAAAA'' ''War Film'' ''PT80M'') start
     = (Inr (Some \<lparr>title = ''War Film'', year = [], director = [], leads = [''Alice''],
                  posterUrl = [], youtubeId = ''AAAAAAAAAAA'', awards = []\<rparr>),
        \<lparr>seen_ids = {}, calls = [TmdbSearch ''War Film'', TmdbDetails 1], artifact = None\<rparr>)
   \<and> detail_lookup (stub_env [\<lparr>hit_id = Some 1\<rparr>] cast_details [])
          (plain_video ''AAAAAAAAAAA'' ''War Film'' ''PT80M'') start = Some cast_details
   \<and> [''Alice''] =
       (case detail_lookup (stub_env [\<lparr>hit_id = Some 1\<rparr>] cast_details [])
               (plain_video ''AAAAAAAAAAA'' ''War Film'' ''PT80M'') start of
          None \<Rightarrow> []
        | Some d \<Rightarrow> (case d_credits d of None \<Rightarrow> [] | Some c \<Rightarrow> billed_names (cast c)))"
proof -
  have b: "build_item_from_video (stub_env [\<lparr>hit_id = Some 1\<rparr>] cast_details [])
          (plain_video ''AAAAAAAAAAA'' ''War Film'' ''PT80M'') start
     = (Inr (Some \<lparr>title = ''War Film'', year = [], director = [], leads = [''Alice''],
                  posterUrl = [], youtubeId = ''AAAAAAAAAAA'', awards = []\<rparr>),
        \<lparr>seen_ids = {}, calls = [TmdbSearch ''War Film'', TmdbDetails 1], artifact = None\<rparr>)"
    by code_simp
  have l: "detail_lookup (stub_env [\<lparr>hit_id = Some 1\<rparr>] cast_details [])
          (plain_video ''AAAAAAAAAAA'' ''War Film'' ''PT80M'') start = Some cast_details"
    by code_simp
  from item_leads [OF b] show ?thesis using b l by simp
qed


section \<open>The poster\<close>

text \<open>
  \<open>pick_best_thumbnail\<close> goes through the five variants in the order maxres, standard,
  high, medium, default. It stops at the first one that is \<open>null\<close>, where it raises, or
  that has a non-empty URL, which it returns; with neither it returns the empty string.
\<close>

lemma first_thumbnail_find:
  assumes "sn_thumbnails sn = Some thumbs"
  shows "first_thumbnail thumbs ks =
     (case find (\<lambda>k. null_variant sn k \<or> has_url sn k) ks of
        None \<Rightarrow> Inr []
      | Some k \<Rightarrow> if null_variant sn k then Inl AttributeError else Inr (url_at sn k))"
proof (induction ks)
  case Nil
  show ?case by simp
next
  case (Cons k ks)
  show ?case
  proof (cases "thumbs k")
    case None
    with assms Cons show ?thesis by (simp add: null_variant_def has_url_def)
  next
    case (Some t)
    with assms Cons show ?thesis
      by (cases t) (auto simp: null_variant_def has_url_def url_at_def truthy_def or_empty_def
          split: option.splits)
  qed
qed

lemma first_thumbnail_empty: "first_thumbnail Map.empty ks = Inr []"
  by (induction ks) simp_all

lemma pick_best_thumbnail_find:
  "pick_best_thumbnail sn =
     (case find (\<lambda>k. null_variant sn k \<or> has_url sn k)
             [''maxres'', ''standard'', ''high'', ''medium'', ''default''] of
        None \<Rightarrow> Inr []
      | Some k \<Rightarrow> if null_variant sn k then Inl AttributeError else Inr (url_at sn k))"
proof (cases "sn_thumbnails sn")
  case None
  then have "find (\<lambda>k. null_variant sn k \<or> has_url sn k) ks = None" for ks
    by (simp add: find_None_iff null_variant_def has_url_def)
  with None show ?thesis
    by (simp add: pick_best_thumbnail_def first_thumbnail_empty)
next
  case (Some thumbs)
  then show ?thesis
    unfolding pick_best_thumbnail_def Let_def thumbnail_keys_def
    by (simp only: option.case first_thumbnail_find [OF Some])
qed

lemma pick_best_thumbnail_best:
  assumes "\<not> null_variant sn ''maxres''" "\<not> null_variant sn ''standard''"
    "\<not> null_variant sn ''high''" "\<not> null_variant sn ''medium''" "\<not> null_variant sn ''default''"
  shows "pick_best_thumbnail sn = Inr (best_thumbnail sn)"
  using assms by (simp add: pick_best_thumbnail_find best_thumbnail_def)

lemma pick_best_thumbnail_example: "pick_best_thumbnail two_thumbs = Inr ''http://h''"
  by code_simp

text \<open>
  The poster of an Item whose candidate has no \<open>null\<close> variant: the poster path of the
  detail lookup of the matched film under the fixed prefix, if that lookup was made and
  gave a non-empty path, and the best thumbnail of the candidate otherwise.
\<close>

lemma item_poster:
  assumes "build_item_from_video e v st = (Inr (Some it), st')" "v_snippet v = Some sn"
    "\<not> null_variant sn ''maxres''" "\<not> null_variant sn ''standard''"
    "\<not> null_variant sn ''high''" "\<not> null_variant sn ''medium''" "\<not> null_variant sn ''default''"
  shows "posterUrl it =
           (case detail_lookup e v st of
              None \<Rightarrow> best_thumbnail sn
            | Some d \<Rightarrow>
                (case poster_path d of
                   None \<Rightarrow> best_thumbnail sn
                 | Some pth \<Rightarrow>
                     if pth = [] then best_thumbnail sn
                     else ''https://image.tmdb.org/t/p/w500'' @ pth))"
proof -
  have th: "video_thumbnail v = Inr (best_thumbnail sn)"
    using assms(2) pick_best_thumbnail_best [OF assms(3-7)] by (simp add: video_thumbnail_def)
  show ?thesis
  proof (cases "detail_lookup e v st")
    case None
    with build_item_cases [OF assms(1)] th show ?thesis by (auto simp: degraded_item_def)
  next
    case (Some d)
    with build_item_cases [OF assms(1)] obtain aw p
      where p: "(if poster_of d \<noteq> [] then Inr (poster_of d) else video_thumbnail v) = Inr p"
        and i: "it = enriched_item v d aw p" by auto
    from p th i Some show ?thesis
      by (auto simp: enriched_item_def poster_of_def truthy_def or_empty_def
          split: option.splits if_splits)
  qed
qed

text \<open>
  Claim C10. \<open>pick_best_thumbnail\<close> is to be total and never to raise. The snippet below
  has the variant \<open>maxres\<close> present as \<open>null\<close> and a usable variant \<open>high\<close>; the
  function raises AttributeError on it.
\<close>

theorem pick_best_thumbnail_null_variant:
  "pick_best_thumbnail null_snippet = Inl AttributeError \<and> has_url null_snippet ''high''"
  by code_simp


section \<open>The award resolver\<close>

lemma fromkeys_fold_set:
  "set (foldl (\<lambda>acc x. if x \<in> set acc then acc else acc @ [x]) acc xs) = set acc \<union> set xs"
  by (induction xs arbitrary: acc) auto

lemma fromkeys_fold_distinct:
  "distinct acc \<Longrightarrow> distinct (foldl (\<lambda>acc x. if x \<in> set acc then acc else acc @ [x]) acc xs)"
  by (induction xs arbitrary: acc) auto

lemma set_fromkeys: "set (fromkeys xs) = set xs"
  by (simp add: fromkeys_def fromkeys_fold_set)

lemma distinct_fromkeys: "distinct (fromkeys xs)"
  by (simp add: fromkeys_def fromkeys_fold_distinct)

lemma set_award_labels:
  "set (award_labels uris) = {l. \<exists>uri \<in> set uris. WIKIDATA_AWARD_QIDS (qid_of uri) = Some l}"
  unfolding award_labels_def
  by (induction uris) (auto simp: map_filter_simps split: option.splits)

lemma sorted_labels: "sorted_wrt (<) (sort (fromkeys (award_labels uris)))"
  by (simp add: strict_sorted_iff distinct_fromkeys)

text \<open>
  Claim C9. With an empty film identifier the resolver returns the empty list and sends
  no request. Otherwise, on an answer with status 200, it returns the labels of the
  returned award identifiers that are in the allow-list, each once, in strictly
  ascending order. An answer with another status gives the empty list.
\<close>

theorem award_resolver:
  "wikidata_awards_for_film e [] st = (Inr [], st)
   \<and> (imdb \<noteq> [] \<longrightarrow> wikidata_api e (tick st) imdb = Inr r \<longrightarrow> status_code r = 200 \<longrightarrow>
       (\<exists>labels. wikidata_awards_for_film e imdb st = (Inr labels, log_call (Wikidata imdb) st)
          \<and> sorted_wrt (<) labels
          \<and> set labels = {l. \<exists>uri \<in> set (bindings r). WIKIDATA_AWARD_QIDS (qid_of uri) = Some l}))
   \<and> (imdb \<noteq> [] \<longrightarrow> wikidata_api e (tick st) imdb = Inr r \<longrightarrow> status_code r \<noteq> 200 \<longrightarrow>
       wikidata_awards_for_film e imdb st = (Inr [], log_call (Wikidata imdb) st))"
  by (simp add: wikidata_awards_for_film_def sorted_labels set_fromkeys set_award_labels)

text \<open>
  The stub of the specification: the identifiers A, B, A, C with A and C in the allow-list
  give the two labels, sorted, without duplicate.
\<close>

theorem award_resolver_witness:
  "''tt0000001'' \<noteq> []
   \<and> wikidata_api (stub_env [] no_details award_uris) (tick start) ''tt0000001''
       = Inr \<lparr>status_code = 200, bindings = award_uris\<rparr>
   \<and> wikidata_awards_for_film (stub_env [] no_details award_uris) ''tt0000001'' start
       = (Inr [''Oscar Best Director'', ''Oscar Best Picture''],
          log_call (Wikidata ''tt0000001'') start)
   \<and> sorted_wrt (<) [''Oscar Best Director'', ''Oscar Best Picture'']"
proof -
  have w: "wikidata_api (stub_env [] no_details award_uris) (tick start) ''tt0000001''
       = Inr \<lparr>status_code = 200, bindings = award_uris\<rparr>"
    by (simp add: stub_env_def)
  have v: "wikidata_awards_for_film (stub_env [] no_details award_uris) ''tt0000001'' start
       = (Inr [''Oscar Best Director'', ''Oscar Best Picture''],
          log_call (Wikidata ''tt0000001'') start)"
    by code_simp
  from award_resolver [of "stub_env [] no_details award_uris" start "''tt0000001''"
      "\<lparr>status_code = 200, bindings = award_uris\<rparr>"] w v
  show ?thesis by auto
qed


end
